theory Spec2Isabelle
  imports Complex_Main
begin

section \<open>JavaScript values as the proxy sees them\<close>

text \<open>
  The file \<^verbatim>\<open>server.js\<close> holds two revisions of the proxy. The later one (from the
  line \<^verbatim>\<open>// server.js (Node 18+)\<close> on) is embedded under the source's names. The earlier
  one has the same \<open>requireKey\<close>, \<open>openSession\<close> and token request; its functions that
  differ are embedded under the source's names with the suffix \<open>_v1\<close>: \<open>getToken\<close>
  returns \<^verbatim>\<open>raw: text\<close> on a transport failure, \<open>authCycle\<close> has no credentials check and
  returns no \<^verbatim>\<open>token_type\<close>, the auth route replies without \<^verbatim>\<open>token_type\<close>, and the
  cliente route sends its request itself and cuts the raw text at 800. The earlier
  revision has no faturas route.

  The proxy only ever handles values that come out of \<^verbatim>\<open>JSON.parse\<close>, string constants
  and \<^verbatim>\<open>undefined\<close>. A parsed value is a \<open>json\<close>; a JavaScript value that may also be
  \<^verbatim>\<open>undefined\<close> is a \<open>json option\<close> with \<open>None\<close> for \<^verbatim>\<open>undefined\<close>.

  A number is an IEEE double; \<^verbatim>\<open>JSON.parse\<close> yields finite doubles and the two
  infinities, never NaN. The code only tests numbers for truthiness and passes them on,
  so a finite number is kept as the rational it denotes.

  A string is a list of code units; \<open>length\<close> and \<open>take\<close> count what
  \<^verbatim>\<open>.length\<close> and \<^verbatim>\<open>.slice\<close> count.

  An object is the list of its own properties; a property is read with \<open>map_of\<close>.
\<close>

datatype number = Fin rat | PosInfinity | NegInfinity

datatype json =
    JNull
  | JBool bool
  | JNum number
  | JStr string
  | JArr "json list"
  | JObj "(string \<times> json) list"

text \<open>\<^verbatim>\<open>v.k\<close> for one of the property names the code reads (\<^verbatim>\<open>erro\<close>, \<^verbatim>\<open>data\<close>,
  \<^verbatim>\<open>access_token\<close>, ...): none of them exists on a string, number, boolean or array.\<close>

fun get_prop :: "json \<Rightarrow> string \<Rightarrow> json option" where
  "get_prop (JObj kvs) k = map_of kvs k"
| "get_prop _ k = None"

text \<open>\<^verbatim>\<open>v?.k\<close>: \<^verbatim>\<open>undefined\<close> when \<open>v\<close> is \<^verbatim>\<open>null\<close> or \<^verbatim>\<open>undefined\<close>.\<close>

definition opt_prop :: "json option \<Rightarrow> string \<Rightarrow> json option" where
  "opt_prop v k = (case v of None \<Rightarrow> None | Some JNull \<Rightarrow> None | Some j \<Rightarrow> get_prop j k)"

text \<open>ToBoolean.\<close>

fun truthy :: "json \<Rightarrow> bool" where
  "truthy JNull = False"
| "truthy (JBool b) = b"
| "truthy (JNum n) = (n \<noteq> Fin 0)"
| "truthy (JStr s) = (s \<noteq> [])"
| "truthy (JArr _) = True"
| "truthy (JObj _) = True"

definition truthy_val :: "json option \<Rightarrow> bool" where
  "truthy_val v = (case v of None \<Rightarrow> False | Some j \<Rightarrow> truthy j)"

text \<open>\<^verbatim>\<open>a || b\<close> and \<^verbatim>\<open>a ?? b\<close>.\<close>

definition js_or :: "json option \<Rightarrow> json option \<Rightarrow> json option" where
  "js_or a b = (if truthy_val a then a else b)"

definition nullish :: "json \<Rightarrow> json \<Rightarrow> json" where
  "nullish a b = (if a = JNull then b else a)"

text \<open>An environment variable, a header or a cookie is a string, or \<^verbatim>\<open>undefined\<close> or
  \<^verbatim>\<open>null\<close> (both \<open>None\<close>); it is truthy when it is a string that is not empty.\<close>

definition truthy_str :: "string option \<Rightarrow> bool" where
  "truthy_str v = (case v of None \<Rightarrow> False | Some s \<Rightarrow> s \<noteq> [])"

text \<open>An environment variable inside a template literal.\<close>

definition env_str :: "string option \<Rightarrow> string" where
  "env_str v = (case v of None \<Rightarrow> ''undefined'' | Some s \<Rightarrow> s)"

section \<open>Configuration, library functions and the network\<close>

record config =
  GESPROV_URL :: "string option"
  GESPROV_CLIENT_ID :: "string option"
  GESPROV_CLIENT_SECRET :: "string option"
  PROXY_API_KEY :: "string option"
  GESPROV_PHPSESSID :: "string option"

record request =
  http_method :: string
  url :: string
  headers :: "(string \<times> string) list"
  body :: "string option"

text \<open>What the code reads of a \<^verbatim>\<open>fetch\<close> response: \<^verbatim>\<open>r.status\<close> (a three-digit HTTP
  status code; the model admits every natural number),
  \<^verbatim>\<open>r.headers.get("set-cookie")\<close> and \<^verbatim>\<open>await r.text()\<close>.\<close>

record response =
  status :: nat
  set_cookie :: "string option"
  body_text :: string

datatype fetch_result = NetworkError | Response response

text \<open>What a rejected promise carries: a \<^verbatim>\<open>fetch\<close> that failed, or the \<^verbatim>\<open>TypeError\<close> of
  a method call on \<^verbatim>\<open>undefined\<close>.\<close>

datatype error = FetchFailed | TypeError

type_synonym trace = "request list"

text \<open>
  The host: the library functions the code calls and the upstream server. \<open>JSON_parse\<close>
  is \<open>None\<close> where \<^verbatim>\<open>JSON.parse\<close> throws. The upstream answers a request knowing
  every request sent before it, so two equal requests may get different answers.
  A \<^verbatim>\<open>fetch\<close> that rejects, or whose body cannot be read, is \<open>NetworkError\<close>.
\<close>

record host =
  JSON_parse :: "string \<Rightarrow> json option"
  JSON_stringify :: "json \<Rightarrow> string"
  String_of :: "json \<Rightarrow> string"
  base64 :: "string \<Rightarrow> string"
  upstream :: "trace \<Rightarrow> request \<Rightarrow> fetch_result"

text \<open>Every outbound call goes through \<open>fetch\<close>, which appends the request to the trace.\<close>

definition fetch :: "host \<Rightarrow> request \<Rightarrow> trace \<Rightarrow> (error + response) \<times> trace" where
  "fetch H rq tr =
     (case upstream H tr rq of
        NetworkError \<Rightarrow> (Inl FetchFailed, tr @ [rq])
      | Response r \<Rightarrow> (Inr r, tr @ [rq]))"

text \<open>\<^verbatim>\<open>r.ok\<close>.\<close>

definition ok :: "response \<Rightarrow> bool" where
  "ok r = (200 \<le> status r \<and> status r \<le> 299)"

text \<open>\<^verbatim>\<open>let payload = null; try { payload = JSON.parse(text); } catch {}\<close>\<close>

definition parse_or_null :: "host \<Rightarrow> string \<Rightarrow> json" where
  "parse_or_null H t = (case JSON_parse H t of None \<Rightarrow> JNull | Some j \<Rightarrow> j)"

section \<open>openSession\<close>

text \<open>
  \<^verbatim>\<open>setCookie?.match(/PHPSESSID=[^;]+/i)\<close>: the leftmost place where the name (in any
  letter case) and \<open>=\<close> are followed by at least one character other than \<open>;\<close>; the
  match runs up to the next \<open>;\<close> or the end. Without the \<^verbatim>\<open>u\<close> flag only ASCII letters
  match the letters of the pattern.
\<close>

definition upper :: "char \<Rightarrow> char" where
  "upper c = (let n = (of_char c :: nat) in if 97 \<le> n \<and> n \<le> 122 then char_of (n - 32) else c)"

definition starts_PHPSESSID :: "string \<Rightarrow> bool" where
  "starts_PHPSESSID s =
     (map upper (take 10 s) = ''PHPSESSID='' \<and> takeWhile (\<lambda>c. c \<noteq> CHR '';'') (drop 10 s) \<noteq> [])"

fun match_PHPSESSID :: "string \<Rightarrow> string option" where
  "match_PHPSESSID [] = None"
| "match_PHPSESSID (c # cs) =
     (if starts_PHPSESSID (c # cs)
      then Some (take 10 (c # cs) @ takeWhile (\<lambda>c. c \<noteq> CHR '';'') (drop 10 (c # cs)))
      else match_PHPSESSID cs)"

definition cookie_of :: "response \<Rightarrow> string option" where
  "cookie_of r = (case set_cookie r of None \<Rightarrow> None | Some s \<Rightarrow> match_PHPSESSID s)"

definition GET :: "string \<Rightarrow> request" where
  "GET u = \<lparr>http_method = ''GET'', url = u, headers = [], body = None\<rparr>"

text \<open>The \<^verbatim>\<open>for (const url of tries)\<close> loop; a rejected \<^verbatim>\<open>fetch\<close> is swallowed.\<close>

fun openSession_loop :: "host \<Rightarrow> string list \<Rightarrow> trace \<Rightarrow> string option \<times> trace" where
  "openSession_loop H [] tr = (None, tr)"
| "openSession_loop H (u # us) tr =
     (case fetch H (GET u) tr of
        (Inl e, tr') \<Rightarrow> openSession_loop H us tr'
      | (Inr r, tr') \<Rightarrow>
          (case cookie_of r of
             Some m \<Rightarrow> (Some m, tr')
           | None \<Rightarrow> openSession_loop H us tr'))"

definition tries :: "string \<Rightarrow> string list" where
  "tries baseUrl = [baseUrl @ ''/'', baseUrl @ ''/ges-api/'', baseUrl @ ''/ges-api/v1/'']"

definition openSession :: "host \<Rightarrow> string \<Rightarrow> trace \<Rightarrow> string option \<times> trace" where
  "openSession H baseUrl tr = openSession_loop H (tries baseUrl) tr"

section \<open>getToken\<close>

text \<open>\<^verbatim>\<open>{ ok: false, status, raw }\<close> or \<^verbatim>\<open>{ ok: true, access_token, token_type }\<close>.\<close>

datatype token_result =
    TokenFailed nat json
  | TokenOk "json option" "json option"

definition token_request :: "host \<Rightarrow> config \<Rightarrow> string \<Rightarrow> string \<Rightarrow> request" where
  "token_request H cfg baseUrl phpsessidCookie =
     \<lparr>http_method = ''POST'',
      url = baseUrl @ ''/ges-api/v1/token'',
      headers =
        [(''Authorization'', ''Basic '' @
            base64 H (env_str (GESPROV_CLIENT_ID cfg) @ '':'' @ env_str (GESPROV_CLIENT_SECRET cfg))),
         (''Cookie'', phpsessidCookie),
         (''Content-Type'', ''application/json''),
         (''Accept'', ''application/json, text/plain, */*''),
         (''User-Agent'', ''railway-proxy'')],
      body = Some ''{}''\<rparr>"

definition access_token_of :: "json \<Rightarrow> json option" where
  "access_token_of payload =
     js_or (opt_prop (opt_prop (Some payload) ''data'') ''access_token'')
       (js_or (opt_prop (Some payload) ''access_token'')
          (opt_prop (Some payload) ''token_acesso''))"

definition token_type_of :: "json \<Rightarrow> json option" where
  "token_type_of payload =
     js_or (opt_prop (opt_prop (Some payload) ''data'') ''token_type'')
       (js_or (opt_prop (Some payload) ''token_type'')
          (Some (JStr ''Bearer'')))"

text \<open>The part of \<open>getToken\<close> after \<^verbatim>\<open>await r.text()\<close>.\<close>

definition classify_token :: "host \<Rightarrow> response \<Rightarrow> token_result" where
  "classify_token H r =
     (let payload = parse_or_null H (body_text r) in
      if \<not> ok r then TokenFailed (status r) (nullish payload (JStr (body_text r)))
      else if truthy_val (opt_prop (Some payload) ''erro'') then TokenFailed 401 payload
      else
        (let access_token = access_token_of payload;
             token_type = token_type_of payload
         in if \<not> truthy_val access_token
            then TokenFailed 502 (nullish payload (JStr (body_text r)))
            else TokenOk access_token token_type))"

definition getToken ::
  "host \<Rightarrow> config \<Rightarrow> string \<Rightarrow> string \<Rightarrow> trace \<Rightarrow> (error + token_result) \<times> trace" where
  "getToken H cfg baseUrl phpsessidCookie tr =
     (case fetch H (token_request H cfg baseUrl phpsessidCookie) tr of
        (Inl e, tr') \<Rightarrow> (Inl e, tr')
      | (Inr r, tr') \<Rightarrow> (Inr (classify_token H r), tr'))"

section \<open>authCycle\<close>

text \<open>\<^verbatim>\<open>{ ok: false, status, error }\<close> with or without \<^verbatim>\<open>raw\<close>, or
  \<^verbatim>\<open>{ ok: true, cookie, token, token_type }\<close>.\<close>

datatype auth_result =
    AuthFailed nat string "json option"
  | Authenticated string "json option" "json option"

text \<open>\<^verbatim>\<open>.replace(/\/$/, "")\<close>\<close>

definition strip_slash :: "string \<Rightarrow> string" where
  "strip_slash s = (if s \<noteq> [] \<and> last s = CHR ''/'' then butlast s else s)"

text \<open>\<^verbatim>\<open>(GESPROV_URL || "").replace(/\/$/, "")\<close>\<close>

definition base_url :: "config \<Rightarrow> string" where
  "base_url cfg = strip_slash (case GESPROV_URL cfg of None \<Rightarrow> [] | Some s \<Rightarrow> s)"

text \<open>\<^verbatim>\<open>GESPROV_PHPSESSID ? `PHPSESSID=${GESPROV_PHPSESSID}` : null\<close>\<close>

definition fixed_cookie :: "config \<Rightarrow> string option" where
  "fixed_cookie cfg =
     (if truthy_str (GESPROV_PHPSESSID cfg) then Some (''PHPSESSID='' @ env_str (GESPROV_PHPSESSID cfg))
      else None)"

text \<open>\<^verbatim>\<open>a || b\<close> on strings that may be \<^verbatim>\<open>null\<close> or \<^verbatim>\<open>undefined\<close>
  (\<^verbatim>\<open>sid || fixed\<close>, and the two headers of \<open>requireKey\<close>).\<close>

definition str_or :: "string option \<Rightarrow> string option \<Rightarrow> string option" where
  "str_or a b = (if truthy_str a then a else b)"

definition authCycle :: "host \<Rightarrow> config \<Rightarrow> trace \<Rightarrow> (error + auth_result) \<times> trace" where
  "authCycle H cfg tr =
     (let baseUrl = base_url cfg in
      if baseUrl = [] then (Inr (AuthFailed 500 ''GESPROV_URL not set'' None), tr)
      else if \<not> truthy_str (GESPROV_CLIENT_ID cfg) \<or> \<not> truthy_str (GESPROV_CLIENT_SECRET cfg)
      then (Inr (AuthFailed 500 ''GESPROV_CLIENT_ID / GESPROV_CLIENT_SECRET not set'' None), tr)
      else
        (case openSession H baseUrl tr of
           (sid, tr1) \<Rightarrow>
             (let fixed = fixed_cookie cfg in
              case str_or sid fixed of
                None \<Rightarrow>
                  (Inr (AuthFailed 502 ''Could not obtain PHPSESSID (session required)'' None), tr1)
              | Some cookie \<Rightarrow>
                  if cookie = []
                  then (Inr (AuthFailed 502 ''Could not obtain PHPSESSID (session required)'' None), tr1)
                  else
                    (case getToken H cfg baseUrl cookie tr1 of
                       (Inl e, tr2) \<Rightarrow> (Inl e, tr2)
                     | (Inr (TokenFailed st raw), tr2) \<Rightarrow>
                         (Inr (AuthFailed st ''Token failed'' (Some raw)), tr2)
                     | (Inr (TokenOk access_token token_type), tr2) \<Rightarrow>
                         (Inr (Authenticated cookie access_token token_type), tr2)))))"

section \<open>gesprovPost\<close>


text \<open>An object literal; a property whose value is \<^verbatim>\<open>undefined\<close> is left out when the
  object is serialised.\<close>

definition obj :: "(string \<times> json option) list \<Rightarrow> json" where
  "obj kvs = JObj (List.map_filter (\<lambda>(k, v). case v of None \<Rightarrow> None | Some j \<Rightarrow> Some (k, j)) kvs)"



section \<open>Routes\<close>

text \<open>An inbound request: the two headers \<open>requireKey\<close> reads and \<^verbatim>\<open>req.body\<close>.\<close>

record inbound =
  x_api_key :: "string option"
  api_key :: "string option"
  req_body :: "json option"

text \<open>\<^verbatim>\<open>res.status(n).json(v)\<close>; \<^verbatim>\<open>res.json(v)\<close> is status 200. The status is written as
  the code passes it. A route that ends in \<open>Inl\<close> has rejected without writing a
  response.\<close>

datatype reply = Reply nat json

text \<open>\<open>requireKey\<close> is \<open>None\<close> where the source returns \<^verbatim>\<open>true\<close>, and the response it
  has written where the source returns \<^verbatim>\<open>false\<close>.\<close>

definition requireKey :: "config \<Rightarrow> inbound \<Rightarrow> reply option" where
  "requireKey cfg req =
     (if \<not> truthy_str (PROXY_API_KEY cfg) then None
      else
        (let key = str_or (x_api_key req) (api_key req) in
         if key \<noteq> PROXY_API_KEY cfg
         then Some (Reply 401 (obj [(''error'', Some (JStr ''Unauthorized (invalid proxy key)''))]))
         else None))"

text \<open>\<^verbatim>\<open>res.status(auth.status || 500).json(auth)\<close>\<close>

definition auth_json :: "auth_result \<Rightarrow> json" where
  "auth_json a =
     (case a of
        AuthFailed st err raw \<Rightarrow>
          obj [(''ok'', Some (JBool False)), (''status'', Some (JNum (Fin (of_nat st)))),
               (''error'', Some (JStr err)), (''raw'', raw)]
      | Authenticated cookie token token_type \<Rightarrow>
          obj [(''ok'', Some (JBool True)), (''cookie'', Some (JStr cookie)),
               (''token'', token), (''token_type'', token_type)])"

definition auth_failure_reply :: "nat \<Rightarrow> string \<Rightarrow> json option \<Rightarrow> reply" where
  "auth_failure_reply st err raw =
     Reply (if st = 0 then 500 else st) (auth_json (AuthFailed st err raw))"

definition route_auth :: "host \<Rightarrow> config \<Rightarrow> inbound \<Rightarrow> trace \<Rightarrow> (error + reply) \<times> trace" where
  "route_auth H cfg req tr =
     (case requireKey cfg req of
        Some rp \<Rightarrow> (Inr rp, tr)
      | None \<Rightarrow>
          (case authCycle H cfg tr of
             (Inl e, tr1) \<Rightarrow> (Inl e, tr1)
           | (Inr (AuthFailed st err raw), tr1) \<Rightarrow> (Inr (auth_failure_reply st err raw), tr1)
           | (Inr (Authenticated cookie token token_type), tr1) \<Rightarrow>
               (Inr (Reply 200
                  (obj [(''ok'', Some (JBool True)), (''cookie'', Some (JStr cookie)),
                        (''token'', token), (''token_type'', token_type)])), tr1)))"



text \<open>\<^verbatim>\<open>String(cpf_cnpj).replace(/\D/g, "")\<close>\<close>

definition is_digit :: "char \<Rightarrow> bool" where
  "is_digit c = (48 \<le> (of_char c :: nat) \<and> (of_char c :: nat) \<le> 57)"









text \<open>
  The order in which an object's own properties are enumerated (and serialised): the
  array indices, that is the canonical decimal numerals below \<open>2^32 - 1\<close>, in ascending
  order, then the other names in the order in which they were added. It matters for
  \<^verbatim>\<open>...rest\<close>, whose names come from the inbound request.
\<close>

definition index_value :: "string \<Rightarrow> int" where
  "index_value k = foldl (\<lambda>n c. 10 * n + (of_char c - 48)) 0 k"

definition is_array_index :: "string \<Rightarrow> bool" where
  "is_array_index k =
     (k \<noteq> [] \<and> list_all is_digit k \<and> (k = ''0'' \<or> take 1 k \<noteq> ''0'')
      \<and> index_value k < 4294967295)"

definition property_order :: "(string \<times> json) list \<Rightarrow> (string \<times> json) list" where
  "property_order kvs =
     sort_key (\<lambda>(k, v). index_value k) (filter (\<lambda>(k, v). is_array_index k) kvs)
     @ filter (\<lambda>(k, v). \<not> is_array_index k) kvs"






section \<open>The earlier revision\<close>

text \<open>\<open>getToken\<close> of the earlier revision sends the same request; after
  \<^verbatim>\<open>await r.text()\<close> it differs in the first \<^verbatim>\<open>return\<close>, which carries \<^verbatim>\<open>raw: text\<close>.\<close>

definition classify_token_v1 :: "host \<Rightarrow> response \<Rightarrow> token_result" where
  "classify_token_v1 H r =
     (let payload = parse_or_null H (body_text r) in
      if \<not> ok r then TokenFailed (status r) (JStr (body_text r))
      else if truthy_val (opt_prop (Some payload) ''erro'') then TokenFailed 401 payload
      else
        (let access_token = access_token_of payload;
             token_type = token_type_of payload
         in if \<not> truthy_val access_token
            then TokenFailed 502 (nullish payload (JStr (body_text r)))
            else TokenOk access_token token_type))"

definition getToken_v1 ::
  "host \<Rightarrow> config \<Rightarrow> string \<Rightarrow> string \<Rightarrow> trace \<Rightarrow> (error + token_result) \<times> trace" where
  "getToken_v1 H cfg baseUrl phpsessid tr =
     (case fetch H (token_request H cfg baseUrl phpsessid) tr of
        (Inl e, tr') \<Rightarrow> (Inl e, tr')
      | (Inr r, tr') \<Rightarrow> (Inr (classify_token_v1 H r), tr'))"

text \<open>The rest of \<open>authCycle\<close> once a cookie is chosen; the result has no
  \<^verbatim>\<open>token_type\<close>.\<close>

definition authCycle_v1_token ::
  "host \<Rightarrow> config \<Rightarrow> string \<Rightarrow> string \<Rightarrow> trace \<Rightarrow> (error + auth_result) \<times> trace" where
  "authCycle_v1_token H cfg baseUrl cookie tr1 =
     (case getToken_v1 H cfg baseUrl cookie tr1 of
        (Inl e, tr2) \<Rightarrow> (Inl e, tr2)
      | (Inr (TokenFailed st raw), tr2) \<Rightarrow> (Inr (AuthFailed st ''Token failed'' (Some raw)), tr2)
      | (Inr (TokenOk access_token token_type), tr2) \<Rightarrow>
          (Inr (Authenticated cookie access_token None), tr2))"

text \<open>The block of \<^verbatim>\<open>if (!sid)\<close>: the fixed cookie is read, and either the cycle fails with
  502 or the fixed cookie is exchanged.\<close>

definition authCycle_v1_fallback ::
  "host \<Rightarrow> config \<Rightarrow> string \<Rightarrow> trace \<Rightarrow> (error + auth_result) \<times> trace" where
  "authCycle_v1_fallback H cfg baseUrl tr1 =
     (case fixed_cookie cfg of
        None \<Rightarrow> (Inr (AuthFailed 502 ''Could not obtain PHPSESSID (session required)'' None), tr1)
      | Some fixed \<Rightarrow>
          if fixed = []
          then (Inr (AuthFailed 502 ''Could not obtain PHPSESSID (session required)'' None), tr1)
          else authCycle_v1_token H cfg baseUrl fixed tr1)"

text \<open>There is no credentials check.\<close>

definition authCycle_v1 :: "host \<Rightarrow> config \<Rightarrow> trace \<Rightarrow> (error + auth_result) \<times> trace" where
  "authCycle_v1 H cfg tr =
     (let baseUrl = base_url cfg in
      if baseUrl = [] then (Inr (AuthFailed 500 ''GESPROV_URL not set'' None), tr)
      else
        (case openSession H baseUrl tr of
           (None, tr1) \<Rightarrow> authCycle_v1_fallback H cfg baseUrl tr1
         | (Some sid, tr1) \<Rightarrow>
             if sid = [] then authCycle_v1_fallback H cfg baseUrl tr1
             else authCycle_v1_token H cfg baseUrl sid tr1))"

definition route_auth_v1 :: "host \<Rightarrow> config \<Rightarrow> inbound \<Rightarrow> trace \<Rightarrow> (error + reply) \<times> trace" where
  "route_auth_v1 H cfg req tr =
     (case requireKey cfg req of
        Some rp \<Rightarrow> (Inr rp, tr)
      | None \<Rightarrow>
          (case authCycle_v1 H cfg tr of
             (Inl e, tr1) \<Rightarrow> (Inl e, tr1)
           | (Inr (AuthFailed st err raw), tr1) \<Rightarrow> (Inr (auth_failure_reply st err raw), tr1)
           | (Inr (Authenticated cookie token token_type), tr1) \<Rightarrow>
               (Inr (Reply 200
                  (obj [(''ok'', Some (JBool True)), (''cookie'', Some (JStr cookie)),
                        (''token'', token)])), tr1)))"




text \<open>The status of a failed token exchange.\<close>

definition failed_status :: "(error + token_result) \<times> trace \<Rightarrow> nat option" where
  "failed_status x =
     (case fst x of Inr (TokenFailed st raw) \<Rightarrow> Some st | _ \<Rightarrow> None)"

section \<open>The requests the business routes send\<close>




section \<open>A small upstream for concrete runs\<close>

text \<open>
  The concrete runs below use a configuration with every variable set, an upstream that
  answers the three probes with one \<^verbatim>\<open>Set-Cookie\<close> header (or none), the token request with
  one response and the business request with another, and a table for the few texts
  \<^verbatim>\<open>JSON.parse\<close> is given there (any other text does not parse).
\<close>

definition demo_parse :: "string \<Rightarrow> json option" where
  \<open>demo_parse t =
     (if t = ''{"erro":"usuario_invalido"}'' then Some (JObj [(''erro'', JStr ''usuario_invalido'')])
      else if t = ''{"erro":"bloqueado"}'' then Some (JObj [(''erro'', JStr ''bloqueado'')])
      else if t = ''{"erro":false}'' then Some (JObj [(''erro'', JBool False)])
      else if t = ''{"access_token":""}'' then Some (JObj [(''access_token'', JStr [])])
      else if t = ''{"access_token":"T"}'' then Some (JObj [(''access_token'', JStr ''T'')])
      else if t = ''{"data":{"access_token":"","token_type":"mac"},"token_acesso":"T"}''
      then Some (JObj [(''data'', JObj [(''access_token'', JStr []), (''token_type'', JStr ''mac'')]),
                       (''token_acesso'', JStr ''T'')])
      else if t = ''{"message":"down"}'' then Some (JObj [(''message'', JStr ''down'')])
      else None)\<close>

definition demo_upstream ::
  "string option \<Rightarrow> fetch_result \<Rightarrow> fetch_result \<Rightarrow> trace \<Rightarrow> request \<Rightarrow> fetch_result" where
  "demo_upstream sc tok biz tr rq =
     (if http_method rq = ''GET'' then Response \<lparr>status = 200, set_cookie = sc, body_text = []\<rparr>
      else if url rq = ''http://g/ges-api/v1/token'' then tok
      else biz)"

definition demo_host :: "string option \<Rightarrow> fetch_result \<Rightarrow> fetch_result \<Rightarrow> host" where
  "demo_host sc tok biz =
     \<lparr>JSON_parse = demo_parse, JSON_stringify = (\<lambda>j. ''{}''), String_of = (\<lambda>j. []),
      base64 = (\<lambda>s. s), upstream = demo_upstream sc tok biz\<rparr>"

definition demo_cfg :: config where
  "demo_cfg =
     \<lparr>GESPROV_URL = Some ''http://g/'', GESPROV_CLIENT_ID = Some ''id'',
      GESPROV_CLIENT_SECRET = Some ''secret'', PROXY_API_KEY = None,
      GESPROV_PHPSESSID = Some ''fixed''\<rparr>"

definition demo_req :: inbound where
  "demo_req =
     \<lparr>x_api_key = None, api_key = None,
      req_body = Some (JObj [(''cpf_cnpj'', JStr ''123.456.789-01'')])\<rparr>"

definition resp :: "nat \<Rightarrow> string \<Rightarrow> response" where
  "resp st t = \<lparr>status = st, set_cookie = None, body_text = t\<rparr>"

definition token_good :: fetch_result where
  \<open>token_good = Response (resp 200 ''{"access_token":"T"}'')\<close>

text \<open>\<open>demo_tok\<close>: no probe yields a cookie and the token request is answered by \<open>tok\<close>.
  \<open>demo_biz\<close>: the first probe yields a cookie, the token request yields the token \<open>T\<close>
  and the business request is answered by \<open>biz\<close>.\<close>

definition demo_tok :: "fetch_result \<Rightarrow> host" where
  "demo_tok tok = demo_host None tok NetworkError"

definition demo_biz :: "fetch_result \<Rightarrow> host" where
  "demo_biz biz = demo_host (Some ''PHPSESSID=abc; path=/'') token_good biz"

section \<open>Facts about the session probe and the token exchange\<close>

lemma match_PHPSESSID_nonempty: "match_PHPSESSID s = Some m \<Longrightarrow> m \<noteq> []"
  by (induction s) (auto split: if_splits)

lemma cookie_of_nonempty: "cookie_of r = Some m \<Longrightarrow> m \<noteq> []"
  by (auto simp: cookie_of_def split: option.splits dest: match_PHPSESSID_nonempty)

lemma fetch_trace: "snd (fetch H rq tr) = tr @ [rq]"
  by (simp add: fetch_def split: fetch_result.splits)

lemma fetch_Response: "upstream H tr rq = Response r \<Longrightarrow> fetch H rq tr = (Inr r, tr @ [rq])"
  by (simp add: fetch_def)

lemma openSession_loop_Some: "openSession_loop H us tr = (Some m, tr') \<Longrightarrow> m \<noteq> []"
proof (induction us arbitrary: tr)
  case Nil
  then show ?case by simp
next
  case (Cons u us)
  then show ?case
    by (auto split: prod.splits sum.splits option.splits dest: cookie_of_nonempty)
qed

lemma openSession_loop_None:
  "openSession_loop H us tr = (None, tr') \<Longrightarrow> tr' = tr @ map GET us"
proof (induction us arbitrary: tr)
  case Nil
  then show ?case by simp
next
  case (Cons u us)
  have t: "snd (fetch H (GET u) tr) = tr @ [GET u]" by (rule fetch_trace)
  from Cons.prems Cons.IH [of "tr @ [GET u]"] t show ?case
    by (auto split: prod.splits sum.splits option.splits)
qed

lemma openSession_loop_trace:
  "openSession_loop H us tr = (res, tr') \<Longrightarrow> \<exists>n \<le> length us. tr' = tr @ map GET (take n us)"
proof (induction us arbitrary: tr)
  case Nil
  then show ?case by simp
next
  case (Cons u us)
  have t: "snd (fetch H (GET u) tr) = tr @ [GET u]" by (rule fetch_trace)
  show ?case
  proof (cases "fetch H (GET u) tr")
    case (Pair a tr1)
    with t have tr1: "tr1 = tr @ [GET u]" by simp
    show ?thesis
    proof (cases "case a of Inl e \<Rightarrow> None | Inr r \<Rightarrow> cookie_of r")
      case None
      with Cons.prems Pair have "openSession_loop H us tr1 = (res, tr')"
        by (auto split: sum.splits option.splits)
      from Cons.IH [OF this] obtain n where "n \<le> length us" "tr' = tr1 @ map GET (take n us)"
        by blast
      with tr1 have "Suc n \<le> length (u # us) \<and> tr' = tr @ map GET (take (Suc n) (u # us))"
        by simp
      then show ?thesis by blast
    next
      case (Some m)
      with Cons.prems Pair have "tr' = tr1" by (auto split: sum.splits option.splits)
      with tr1 have "Suc 0 \<le> length (u # us) \<and> tr' = tr @ map GET (take (Suc 0) (u # us))"
        by simp
      then show ?thesis by blast
    qed
  qed
qed

lemma openSession_first:
  assumes "openSession H b tr = (res, tr')"
  shows "\<exists>ext. tr' = tr @ GET (b @ ''/'') # ext"
proof -
  let ?u = "b @ ''/''"
  let ?us = "[b @ ''/ges-api/'', b @ ''/ges-api/v1/'']"
  from assms have l: "openSession_loop H (?u # ?us) tr = (res, tr')"
    by (simp add: openSession_def tries_def)
  from openSession_loop_trace [OF l] obtain n where n: "tr' = tr @ map GET (take n (?u # ?us))"
    by blast
  have "n \<noteq> 0"
  proof
    assume "n = 0"
    with n have e: "tr' = tr" by simp
    have t: "snd (fetch H (GET ?u) tr) = tr @ [GET ?u]" by (rule fetch_trace)
    obtain a t1 where f: "fetch H (GET ?u) tr = (a, t1)" by (cases "fetch H (GET ?u) tr")
    with t have t1: "t1 = tr @ [GET ?u]" by simp
    have "length tr' \<ge> length t1"
    proof (cases "case a of Inl e \<Rightarrow> None | Inr r \<Rightarrow> cookie_of r")
      case None
      with l f have "openSession_loop H ?us t1 = (res, tr')"
        by (auto split: sum.splits option.splits)
      from openSession_loop_trace [OF this] show ?thesis by auto
    next
      case (Some m)
      with l f have "tr' = t1" by (auto split: sum.splits option.splits)
      then show ?thesis by simp
    qed
    with e t1 show False by simp
  qed
  then obtain m where "n = Suc m" by (cases n) auto
  with n have "tr' = tr @ GET ?u # map GET (take m ?us)" by simp
  then show ?thesis by blast
qed

lemma getToken_Response:
  "upstream H tr (token_request H cfg b c) = Response r \<Longrightarrow>
   getToken H cfg b c tr = (Inr (classify_token H r), tr @ [token_request H cfg b c])"
  by (simp add: getToken_def fetch_Response)

lemma getToken_trace: "snd (getToken H cfg b c tr) = tr @ [token_request H cfg b c]"
  by (simp add: getToken_def fetch_def split: fetch_result.splits)

lemma truthy_erro_not_null:
  "truthy_val (opt_prop (Some payload) k) \<Longrightarrow> payload \<noteq> JNull"
  by (auto simp: opt_prop_def truthy_val_def)

lemma token_type_of_truthy: "truthy_val (token_type_of p)"
  by (simp add: token_type_of_def js_or_def truthy_val_def)

lemma classify_token_Ok:
  "classify_token H r = TokenOk a t \<Longrightarrow> truthy_val a \<and> truthy_val t"
  by (auto simp: classify_token_def Let_def token_type_of_truthy split: if_splits)

lemma getToken_Ok:
  "getToken H cfg b c tr = (Inr (TokenOk a t), tr') \<Longrightarrow> truthy_val a \<and> truthy_val t"
  by (auto simp: getToken_def split: prod.splits sum.splits dest: classify_token_Ok)

lemma classify_token_Failed:
  "classify_token H r = TokenFailed st raw \<Longrightarrow>
   st = 401 \<or> st = 502 \<or> (\<not> ok r \<and> st = status r)"
  by (auto simp: classify_token_def Let_def split: if_splits)

lemma getToken_Failed:
  assumes "getToken H cfg b c tr = (Inr (TokenFailed st raw), tr')"
  shows "st = 401 \<or> st = 502
         \<or> (\<exists>r. upstream H tr (token_request H cfg b c) = Response r \<and> \<not> ok r \<and> st = status r)"
proof (cases "upstream H tr (token_request H cfg b c)")
  case NetworkError
  with assms show ?thesis by (simp add: getToken_def fetch_def)
next
  case (Response r)
  with assms have "classify_token H r = TokenFailed st raw"
    by (simp add: getToken_def fetch_def)
  from classify_token_Failed [OF this] Response show ?thesis by blast
qed

lemma classify_token_marker:
  assumes "truthy_val (opt_prop (Some (parse_or_null H (body_text r))) ''erro'')"
  shows "classify_token H r =
           TokenFailed (if ok r then 401 else status r) (parse_or_null H (body_text r))"
proof -
  from assms have "parse_or_null H (body_text r) \<noteq> JNull" by (rule truthy_erro_not_null)
  with assms show ?thesis by (simp add: classify_token_def Let_def nullish_def)
qed

section \<open>Facts about the auth cycle and the routes\<close>

lemma unset_base_url: "\<not> truthy_str (GESPROV_URL cfg) \<Longrightarrow> base_url cfg = []"
  by (auto simp: truthy_str_def base_url_def strip_slash_def split: option.splits)


lemma GET_not_token: "token_request H cfg b c \<notin> set (map GET us)"
  by (auto simp: GET_def token_request_def)



lemma authCycle_probed:
  assumes url: "base_url cfg \<noteq> []"
    and cid: "truthy_str (GESPROV_CLIENT_ID cfg)"
    and sec: "truthy_str (GESPROV_CLIENT_SECRET cfg)"
    and probe: "openSession H (base_url cfg) tr = (Some sid, tr1)"
  shows "authCycle H cfg tr =
           (case getToken H cfg (base_url cfg) sid tr1 of
              (Inl e, tr2) \<Rightarrow> (Inl e, tr2)
            | (Inr (TokenFailed st raw), tr2) \<Rightarrow> (Inr (AuthFailed st ''Token failed'' (Some raw)), tr2)
            | (Inr (TokenOk access_token token_type), tr2) \<Rightarrow>
                (Inr (Authenticated sid access_token token_type), tr2))"
proof -
  from probe have "sid \<noteq> []" unfolding openSession_def by (rule openSession_loop_Some)
  then have "str_or (Some sid) (fixed_cookie cfg) = Some sid"
    by (simp add: str_or_def truthy_str_def)
  with url cid sec probe \<open>sid \<noteq> []\<close> show ?thesis
    by (simp add: authCycle_def)
qed

lemma token_request_fallback [simp]:
  "token_request H (cfg\<lparr>GESPROV_PHPSESSID := fb\<rparr>) b c = token_request H cfg b c"
  by (simp add: token_request_def)

lemma getToken_fallback [simp]:
  "getToken H (cfg\<lparr>GESPROV_PHPSESSID := fb\<rparr>) b c tr = getToken H cfg b c tr"
  by (simp add: getToken_def)

lemma base_url_fallback [simp]: "base_url (cfg\<lparr>GESPROV_PHPSESSID := fb\<rparr>) = base_url cfg"
  by (simp add: base_url_def)

lemma authCycle_Authenticated:
  assumes "authCycle H cfg tr = (Inr (Authenticated c tok tt), tr1)"
  shows "truthy_val tok \<and> truthy_val tt"
  using assms
  by (auto simp: authCycle_def Let_def
      split: if_splits prod.splits option.splits sum.splits token_result.splits
      dest: getToken_Ok)

lemma authCycle_failure_status:
  assumes "authCycle H cfg tr = (Inr (AuthFailed st err raw), tr1)"
  shows "st = 500 \<or> st = 502 \<or> st = 401
         \<or> (\<exists>r c tr0. upstream H tr0 (token_request H cfg (base_url cfg) c) = Response r
               \<and> \<not> ok r \<and> st = status r)"
  using assms
  by (auto simp: authCycle_def Let_def
      split: if_splits prod.splits option.splits sum.splits token_result.splits
      dest!: getToken_Failed)


lemma truthy_val_Some: "truthy_val v \<Longrightarrow> v = Some (the v)"
  by (cases v) (simp_all add: truthy_val_def)







section \<open>Facts about the earlier revision\<close>

lemma getToken_v1_Response:
  "upstream H tr (token_request H cfg b c) = Response r \<Longrightarrow>
   getToken_v1 H cfg b c tr = (Inr (classify_token_v1 H r), tr @ [token_request H cfg b c])"
  by (simp add: getToken_v1_def fetch_Response)

lemma getToken_v1_trace: "snd (getToken_v1 H cfg b c tr) = tr @ [token_request H cfg b c]"
  by (simp add: getToken_v1_def fetch_def split: fetch_result.splits)

lemma classify_token_v1_ok: "ok r \<Longrightarrow> classify_token_v1 H r = classify_token H r"
  by (simp add: classify_token_v1_def classify_token_def)

lemma classify_token_v1_Ok_iff:
  "classify_token_v1 H r = TokenOk a t \<longleftrightarrow> classify_token H r = TokenOk a t"
  by (auto simp: classify_token_v1_def classify_token_def Let_def split: if_splits)

lemma classify_token_v1_marker:
  assumes "truthy_val (opt_prop (Some (parse_or_null H (body_text r))) ''erro'')"
  shows "classify_token_v1 H r =
           TokenFailed (if ok r then 401 else status r)
             (if ok r then parse_or_null H (body_text r) else JStr (body_text r))"
  using assms by (simp add: classify_token_v1_def Let_def)


lemma authCycle_v1_token_trace:
  "snd (authCycle_v1_token H cfg b c tr) = tr @ [token_request H cfg b c]"
  using getToken_v1_trace [of H cfg b c tr]
  by (auto simp: authCycle_v1_token_def split: prod.splits sum.splits token_result.splits)

lemma authCycle_v1_fallback_trace:
  "\<exists>ext. snd (authCycle_v1_fallback H cfg b tr) = tr @ ext"
  using authCycle_v1_token_trace [of H cfg b _ tr]
  by (auto simp: authCycle_v1_fallback_def split: option.splits)

lemma authCycle_v1_first_probe:
  assumes url: "base_url cfg \<noteq> []"
  shows "take (Suc (length tr)) (snd (authCycle_v1 H cfg tr)) = tr @ [GET (base_url cfg @ ''/'')]"
proof -
  obtain sid tr0 where p: "openSession H (base_url cfg) tr = (sid, tr0)"
    by (cases "openSession H (base_url cfg) tr")
  from openSession_first [OF p] obtain ext where e: "tr0 = tr @ GET (base_url cfg @ ''/'') # ext"
    by blast
  have "\<exists>ext'. snd (authCycle_v1 H cfg tr) = tr0 @ ext'"
  proof (cases sid)
    case None
    with url p authCycle_v1_fallback_trace [of H cfg "base_url cfg" tr0] show ?thesis
      by (simp add: authCycle_v1_def)
  next
    case (Some s)
    with url p authCycle_v1_fallback_trace [of H cfg "base_url cfg" tr0]
      authCycle_v1_token_trace [of H cfg "base_url cfg" s tr0]
    show ?thesis by (cases "s = []") (simp_all add: authCycle_v1_def)
  qed
  then obtain ext' where "snd (authCycle_v1 H cfg tr) = tr0 @ ext'" by blast
  with e have "snd (authCycle_v1 H cfg tr) = tr @ GET (base_url cfg @ ''/'') # (ext @ ext')" by simp
  then show ?thesis by simp
qed



lemma authCycle_v1_success_url:
  assumes "authCycle_v1 H cfg tr = (Inr (Authenticated c tok tt), tr1)"
  shows "base_url cfg \<noteq> []"
  using assms by (auto simp: authCycle_v1_def)

lemma authCycle_v1_token_Authenticated:
  assumes "authCycle_v1_token H cfg b ck tr0 = (Inr (Authenticated c tok tt), tr1)"
  shows "truthy_val tok \<and> tt = None"
proof -
  from assms obtain a t where g: "getToken_v1 H cfg b ck tr0 = (Inr (TokenOk a t), tr1)"
    and e: "tok = a" "tt = None"
    by (auto simp: authCycle_v1_token_def split: prod.splits sum.splits token_result.splits)
  from g obtain r where "classify_token_v1 H r = TokenOk a t"
    by (auto simp: getToken_v1_def split: prod.splits sum.splits)
  then have "classify_token H r = TokenOk a t" by (simp add: classify_token_v1_Ok_iff)
  from classify_token_Ok [OF this] e show ?thesis by simp
qed

lemma authCycle_v1_Authenticated:
  assumes a: "authCycle_v1 H cfg tr = (Inr (Authenticated c tok tt), tr1)"
  shows "truthy_val tok \<and> tt = None"
proof -
  note url = authCycle_v1_success_url [OF a]
  obtain sid tr0 where p: "openSession H (base_url cfg) tr = (sid, tr0)"
    by (cases "openSession H (base_url cfg) tr")
  from a url p have "\<exists>ck. authCycle_v1_token H cfg (base_url cfg) ck tr0
      = (Inr (Authenticated c tok tt), tr1)"
    by (cases sid)
      (auto simp: authCycle_v1_def authCycle_v1_fallback_def Let_def split: option.splits if_splits)
  then show ?thesis by (auto dest: authCycle_v1_token_Authenticated)
qed


lemma authCycle_v1_no_session:
  assumes url: "base_url cfg \<noteq> []"
    and probe: "openSession H (base_url cfg) tr = (None, tr1)"
    and nofix: "\<not> truthy_str (GESPROV_PHPSESSID cfg)"
  shows "authCycle_v1 H cfg tr =
           (Inr (AuthFailed 502 ''Could not obtain PHPSESSID (session required)'' None),
            tr @ map GET (tries (base_url cfg)))"
proof -
  from probe have tr1: "tr1 = tr @ map GET (tries (base_url cfg))"
    unfolding openSession_def by (rule openSession_loop_None)
  from nofix have "fixed_cookie cfg = None" by (simp add: fixed_cookie_def)
  with url probe tr1 show ?thesis
    by (simp add: authCycle_v1_def authCycle_v1_fallback_def)
qed

lemma authCycle_v1_probed:
  assumes url: "base_url cfg \<noteq> []"
    and probe: "openSession H (base_url cfg) tr = (Some sid, tr1)"
  shows "authCycle_v1 H cfg tr = authCycle_v1_token H cfg (base_url cfg) sid tr1"
proof -
  from probe have "sid \<noteq> []" unfolding openSession_def by (rule openSession_loop_Some)
  with url probe show ?thesis by (simp add: authCycle_v1_def)
qed



section \<open>The concrete runs\<close>

lemma demo_biz_auth:
  "authCycle (demo_biz biz) demo_cfg [] =
     (Inr (Authenticated ''PHPSESSID=abc'' (Some (JStr ''T'')) (Some (JStr ''Bearer''))),
      [GET ''http://g/'', token_request (demo_biz biz) demo_cfg ''http://g'' ''PHPSESSID=abc''])"
  by code_simp

lemma demo_key: "requireKey demo_cfg demo_req = None"
  by code_simp





text \<open>Array indices come first, in ascending order; \<open>01\<close> is not an array index.\<close>

lemma property_order_example:
  "property_order [(''b'', JNull), (''10'', JNull), (''2'', JNull), (''01'', JNull), (''a'', JNull)]
     = [(''2'', JNull), (''10'', JNull), (''b'', JNull), (''01'', JNull), (''a'', JNull)]"
  by code_simp

section \<open>The token exchange\<close>

text \<open>
  Claim C1, as the code has it. In both revisions \<open>getToken\<close> tests \<^verbatim>\<open>r.ok\<close> before it
  looks for the error marker. For a token response whose body parses to JSON with a truthy
  \<^verbatim>\<open>erro\<close> field, the result is a failure whose status is 401 when the transport status
  is 2xx, and the transport status itself when it is not.
\<close>

theorem C1_token_error_marker:
  assumes up: "upstream H tr (token_request H cfg baseUrl c) = Response r"
    and erro: "truthy_val (opt_prop (Some (parse_or_null H (body_text r))) ''erro'')"
  shows "failed_status (getToken H cfg baseUrl c tr) = Some (if ok r then 401 else status r)
         \<and> failed_status (getToken_v1 H cfg baseUrl c tr) = Some (if ok r then 401 else status r)"
proof -
  from getToken_Response [OF up] classify_token_marker [OF erro]
  have 1: "failed_status (getToken H cfg baseUrl c tr) = Some (if ok r then 401 else status r)"
    by (simp add: failed_status_def)
  from getToken_v1_Response [OF up] classify_token_v1_marker [OF erro]
  have 2: "failed_status (getToken_v1 H cfg baseUrl c tr) = Some (if ok r then 401 else status r)"
    by (simp add: failed_status_def)
  from 1 2 show ?thesis by blast
qed

text \<open>The exchange of the specification's scenario: status 200 and
  \<^verbatim>\<open>{"erro":"usuario_invalido"}\<close> give 401.\<close>

theorem C1_token_error_marker_witness:
  \<open>upstream (demo_tok (Response (resp 200 ''{"erro":"usuario_invalido"}''))) []
      (token_request (demo_tok (Response (resp 200 ''{"erro":"usuario_invalido"}'')))
         demo_cfg ''http://g'' ''PHPSESSID=fixed'')
     = Response (resp 200 ''{"erro":"usuario_invalido"}'')
   \<and> truthy_val (opt_prop (Some (JObj [(''erro'', JStr ''usuario_invalido'')])) ''erro'')
   \<and> failed_status (getToken (demo_tok (Response (resp 200 ''{"erro":"usuario_invalido"}'')))
         demo_cfg ''http://g'' ''PHPSESSID=fixed'' []) = Some 401
   \<and> failed_status (getToken_v1 (demo_tok (Response (resp 200 ''{"erro":"usuario_invalido"}'')))
         demo_cfg ''http://g'' ''PHPSESSID=fixed'' []) = Some 401\<close>
proof -
  let ?r = \<open>resp 200 ''{"erro":"usuario_invalido"}''\<close>
  let ?H = "demo_tok (Response ?r)"
  have up: "upstream ?H [] (token_request ?H demo_cfg ''http://g'' ''PHPSESSID=fixed'') = Response ?r"
    by code_simp
  have p: "parse_or_null ?H (body_text ?r) = JObj [(''erro'', JStr ''usuario_invalido'')]"
    by code_simp
  have erro: "truthy_val (opt_prop (Some (parse_or_null ?H (body_text ?r))) ''erro'')"
    by code_simp
  have okr: "ok ?r" by code_simp
  from C1_token_error_marker [OF up erro] okr p up erro show ?thesis by simp
qed

text \<open>The same body at transport status 500: in both revisions the failure has status 500,
  not 401. And a body whose \<^verbatim>\<open>erro\<close> field is \<^verbatim>\<open>false\<close>, at status 200: the marker test
  is passed over and the failure is the 502 of a missing token.\<close>

theorem C1_counterexample:
  \<open>get_prop (parse_or_null (demo_tok (Response (resp 500 ''{"erro":"usuario_invalido"}'')))
       ''{"erro":"usuario_invalido"}'') ''erro'' = Some (JStr ''usuario_invalido'')
   \<and> fst (getToken (demo_tok (Response (resp 500 ''{"erro":"usuario_invalido"}'')))
         demo_cfg ''http://g'' ''PHPSESSID=fixed'' [])
     = Inr (TokenFailed 500 (JObj [(''erro'', JStr ''usuario_invalido'')]))
   \<and> fst (getToken_v1 (demo_tok (Response (resp 500 ''{"erro":"usuario_invalido"}'')))
         demo_cfg ''http://g'' ''PHPSESSID=fixed'' [])
     = Inr (TokenFailed 500 (JStr ''{"erro":"usuario_invalido"}''))
   \<and> get_prop (parse_or_null (demo_tok (Response (resp 200 ''{"erro":false}''))) ''{"erro":false}'')
       ''erro'' = Some (JBool False)
   \<and> fst (getToken (demo_tok (Response (resp 200 ''{"erro":false}'')))
         demo_cfg ''http://g'' ''PHPSESSID=fixed'' [])
     = Inr (TokenFailed 502 (JObj [(''erro'', JBool False)]))\<close>
  by code_simp

text \<open>
  Claim C5, as the code has it. For a token response with 2xx status whose parsed body has
  no truthy \<^verbatim>\<open>erro\<close>, the access token is the first truthy value in the fixed order
  \<^verbatim>\<open>data.access_token\<close>, \<^verbatim>\<open>access_token\<close>, \<^verbatim>\<open>token_acesso\<close>. If none is truthy (absent,
  null, false, zero or the empty string) the result is a failure with status 502;
  otherwise it is a success whose token type is the first truthy value of
  \<^verbatim>\<open>data.token_type\<close>, \<^verbatim>\<open>token_type\<close>, and \<^verbatim>\<open>"Bearer"\<close> when neither is truthy.
\<close>

theorem C5_token_extraction:
  assumes up: "upstream H tr (token_request H cfg baseUrl c) = Response r"
    and okr: "ok r"
    and p: "p = parse_or_null H (body_text r)"
    and noerr: "\<not> truthy_val (opt_prop (Some p) ''erro'')"
  shows "fst (getToken H cfg baseUrl c tr) =
     Inr (case find truthy_val
                 [opt_prop (opt_prop (Some p) ''data'') ''access_token'',
                  opt_prop (Some p) ''access_token'',
                  opt_prop (Some p) ''token_acesso''] of
            None \<Rightarrow> TokenFailed 502 (nullish p (JStr (body_text r)))
          | Some access_token \<Rightarrow>
              TokenOk access_token
                (case find truthy_val
                        [opt_prop (opt_prop (Some p) ''data'') ''token_type'',
                         opt_prop (Some p) ''token_type''] of
                   None \<Rightarrow> Some (JStr ''Bearer'')
                 | Some token_type \<Rightarrow> token_type))"
proof -
  from okr p noerr have "classify_token H r =
     (case find truthy_val
                 [opt_prop (opt_prop (Some p) ''data'') ''access_token'',
                  opt_prop (Some p) ''access_token'',
                  opt_prop (Some p) ''token_acesso''] of
            None \<Rightarrow> TokenFailed 502 (nullish p (JStr (body_text r)))
          | Some access_token \<Rightarrow>
              TokenOk access_token
                (case find truthy_val
                        [opt_prop (opt_prop (Some p) ''data'') ''token_type'',
                         opt_prop (Some p) ''token_type''] of
                   None \<Rightarrow> Some (JStr ''Bearer'')
                 | Some token_type \<Rightarrow> token_type))"
    by (simp add: classify_token_def Let_def access_token_of_def token_type_of_def js_or_def)
  with getToken_Response [OF up] show ?thesis by simp
qed

theorem C5_token_extraction_witness:
  \<open>ok (resp 200 ''{"data":{"access_token":"","token_type":"mac"},"token_acesso":"T"}'')
   \<and> fst (getToken
         (demo_tok (Response (resp 200 ''{"data":{"access_token":"","token_type":"mac"},"token_acesso":"T"}'')))
         demo_cfg ''http://g'' ''PHPSESSID=fixed'' [])
     = Inr (TokenOk (Some (JStr ''T'')) (Some (JStr ''mac'')))\<close>
proof -
  let ?r = \<open>resp 200 ''{"data":{"access_token":"","token_type":"mac"},"token_acesso":"T"}''\<close>
  let ?H = "demo_tok (Response ?r)"
  let ?p = "JObj [(''data'', JObj [(''access_token'', JStr []), (''token_type'', JStr ''mac'')]),
                  (''token_acesso'', JStr ''T'')]"
  have up: "upstream ?H [] (token_request ?H demo_cfg ''http://g'' ''PHPSESSID=fixed'') = Response ?r"
    by code_simp
  have okr: "ok ?r" by code_simp
  have p: "?p = parse_or_null ?H (body_text ?r)" by code_simp
  have noerr: "\<not> truthy_val (opt_prop (Some ?p) ''erro'')" by code_simp
  have f1: "find truthy_val
                 [opt_prop (opt_prop (Some ?p) ''data'') ''access_token'',
                  opt_prop (Some ?p) ''access_token'',
                  opt_prop (Some ?p) ''token_acesso''] = Some (Some (JStr ''T''))"
    by code_simp
  have f2: "find truthy_val
                        [opt_prop (opt_prop (Some ?p) ''data'') ''token_type'',
                         opt_prop (Some ?p) ''token_type''] = Some (Some (JStr ''mac''))"
    by code_simp
  from C5_token_extraction [OF up okr p noerr] have
    "fst (getToken ?H demo_cfg ''http://g'' ''PHPSESSID=fixed'' [])
       = Inr (TokenOk (Some (JStr ''T'')) (Some (JStr ''mac'')))"
    unfolding f1 f2 by simp
  with okr show ?thesis by blast
qed

text \<open>A 2xx body whose \<^verbatim>\<open>access_token\<close> field is present and empty: the result is the 502
  failure, not a success.\<close>

theorem C5_counterexample:
  \<open>ok (resp 200 ''{"access_token":""}'')
   \<and> parse_or_null (demo_tok (Response (resp 200 ''{"access_token":""}''))) ''{"access_token":""}''
     = JObj [(''access_token'', JStr [])]
   \<and> get_prop (JObj [(''access_token'', JStr [])]) ''access_token'' = Some (JStr [])
   \<and> get_prop (JObj [(''access_token'', JStr [])]) ''erro'' = None
   \<and> fst (getToken (demo_tok (Response (resp 200 ''{"access_token":""}'')))
         demo_cfg ''http://g'' ''PHPSESSID=fixed'' [])
     = Inr (TokenFailed 502 (JObj [(''access_token'', JStr [])]))\<close>
  by code_simp

section \<open>The auth cycle\<close>

text \<open>
  Claim C2, as the code has it. When the base URL, the client id or the client secret is
  not set (undefined or empty), \<open>authCycle\<close> of the later revision returns a failure with
  status 500 and the trace of outbound calls is the one it started with. An unset base URL
  leaves \<open>base_url\<close> empty. The earlier revision has no credentials check: it returns the
  same failure with the trace unchanged when \<open>base_url\<close> is empty, and otherwise its first
  outbound call, the probe of the site root, is sent whatever the credentials.
\<close>

theorem C2_config_error:
  assumes "\<not> truthy_str (GESPROV_URL cfg) \<or> \<not> truthy_str (GESPROV_CLIENT_ID cfg)
           \<or> \<not> truthy_str (GESPROV_CLIENT_SECRET cfg)"
  shows "authCycle H cfg tr =
           (Inr (AuthFailed 500
              (if base_url cfg = [] then ''GESPROV_URL not set''
               else ''GESPROV_CLIENT_ID / GESPROV_CLIENT_SECRET not set'') None), tr)
         \<and> (truthy_str (GESPROV_URL cfg) \<or> base_url cfg = [])
         \<and> (if base_url cfg = []
             then authCycle_v1 H cfg tr = (Inr (AuthFailed 500 ''GESPROV_URL not set'' None), tr)
             else take (Suc (length tr)) (snd (authCycle_v1 H cfg tr))
                    = tr @ [GET (base_url cfg @ ''/'')])"
proof -
  have 1: "authCycle H cfg tr =
           (Inr (AuthFailed 500
              (if base_url cfg = [] then ''GESPROV_URL not set''
               else ''GESPROV_CLIENT_ID / GESPROV_CLIENT_SECRET not set'') None), tr)"
  proof (cases "base_url cfg = []")
    case True
    then show ?thesis by (simp add: authCycle_def)
  next
    case False
    with assms unset_base_url [of cfg]
    have "\<not> truthy_str (GESPROV_CLIENT_ID cfg) \<or> \<not> truthy_str (GESPROV_CLIENT_SECRET cfg)" by blast
    with False show ?thesis by (simp add: authCycle_def)
  qed
  have 2: "truthy_str (GESPROV_URL cfg) \<or> base_url cfg = []"
    using unset_base_url [of cfg] by blast
  have 3: "if base_url cfg = []
             then authCycle_v1 H cfg tr = (Inr (AuthFailed 500 ''GESPROV_URL not set'' None), tr)
             else take (Suc (length tr)) (snd (authCycle_v1 H cfg tr))
                    = tr @ [GET (base_url cfg @ ''/'')]"
  proof (cases "base_url cfg = []")
    case True
    then show ?thesis by (simp add: authCycle_v1_def)
  next
    case False
    with authCycle_v1_first_probe [OF False, of tr H] show ?thesis by simp
  qed
  from 1 2 3 show ?thesis by blast
qed

theorem C2_config_error_witness:
  "\<not> truthy_str (GESPROV_CLIENT_SECRET (demo_cfg\<lparr>GESPROV_CLIENT_SECRET := None\<rparr>))
   \<and> authCycle (demo_biz NetworkError) (demo_cfg\<lparr>GESPROV_CLIENT_SECRET := None\<rparr>) []
     = (Inr (AuthFailed 500 ''GESPROV_CLIENT_ID / GESPROV_CLIENT_SECRET not set'' None), [])
   \<and> take (Suc 0) (snd (authCycle_v1 (demo_biz NetworkError) (demo_cfg\<lparr>GESPROV_CLIENT_SECRET := None\<rparr>) []))
     = [GET ''http://g/'']
   \<and> \<not> truthy_str (GESPROV_URL (demo_cfg\<lparr>GESPROV_URL := None\<rparr>))
   \<and> authCycle (demo_biz NetworkError) (demo_cfg\<lparr>GESPROV_URL := None\<rparr>) []
     = (Inr (AuthFailed 500 ''GESPROV_URL not set'' None), [])
   \<and> authCycle_v1 (demo_biz NetworkError) (demo_cfg\<lparr>GESPROV_URL := None\<rparr>) []
     = (Inr (AuthFailed 500 ''GESPROV_URL not set'' None), [])"
proof -
  let ?cfg = "demo_cfg\<lparr>GESPROV_CLIENT_SECRET := None\<rparr>"
  let ?cfu = "demo_cfg\<lparr>GESPROV_URL := None\<rparr>"
  have h: "\<not> truthy_str (GESPROV_CLIENT_SECRET ?cfg)" by code_simp
  have b: "base_url ?cfg = ''http://g''" by code_simp
  have hu: "\<not> truthy_str (GESPROV_URL ?cfu)" by code_simp
  have bu: "base_url ?cfu = []" by code_simp
  from h have d: "\<not> truthy_str (GESPROV_URL ?cfg) \<or> \<not> truthy_str (GESPROV_CLIENT_ID ?cfg)
      \<or> \<not> truthy_str (GESPROV_CLIENT_SECRET ?cfg)" by blast
  from hu have du: "\<not> truthy_str (GESPROV_URL ?cfu) \<or> \<not> truthy_str (GESPROV_CLIENT_ID ?cfu)
      \<or> \<not> truthy_str (GESPROV_CLIENT_SECRET ?cfu)" by blast
  from C2_config_error [OF d, of "demo_biz NetworkError" "[]"]
    C2_config_error [OF du, of "demo_biz NetworkError" "[]"] h hu
  show ?thesis unfolding b bu by simp
qed

text \<open>The earlier revision with no client secret: the cycle probes, exchanges the token with
  the credentials \<^verbatim>\<open>id:undefined\<close> and succeeds.\<close>

theorem C2_counterexample:
  "\<not> truthy_str (GESPROV_CLIENT_SECRET (demo_cfg\<lparr>GESPROV_CLIENT_SECRET := None\<rparr>))
   \<and> authCycle_v1 (demo_biz NetworkError) (demo_cfg\<lparr>GESPROV_CLIENT_SECRET := None\<rparr>) []
     = (Inr (Authenticated ''PHPSESSID=abc'' (Some (JStr ''T'')) None),
        [GET ''http://g/'',
         token_request (demo_biz NetworkError) (demo_cfg\<lparr>GESPROV_CLIENT_SECRET := None\<rparr>)
           ''http://g'' ''PHPSESSID=abc''])
   \<and> map_of (headers (token_request (demo_biz NetworkError) (demo_cfg\<lparr>GESPROV_CLIENT_SECRET := None\<rparr>)
           ''http://g'' ''PHPSESSID=abc'')) ''Authorization'' = Some ''Basic id:undefined''"
  by code_simp

text \<open>
  Claim C3. With a valid configuration, when \<open>openSession\<close> finds no cookie and no fixed
  cookie is configured, \<open>authCycle\<close> returns a failure with status 502; the calls of the
  run are the three GET probes and nothing else, so no token request (for any base URL
  and cookie) is among them.
\<close>

theorem C3_no_session_no_fallback:
  assumes url: "base_url cfg \<noteq> []"
    and cid: "truthy_str (GESPROV_CLIENT_ID cfg)"
    and sec: "truthy_str (GESPROV_CLIENT_SECRET cfg)"
    and probe: "openSession H (base_url cfg) tr = (None, tr1)"
    and nofix: "\<not> truthy_str (GESPROV_PHPSESSID cfg)"
  shows "authCycle H cfg tr =
           (Inr (AuthFailed 502 ''Could not obtain PHPSESSID (session required)'' None),
            tr @ map GET (tries (base_url cfg)))
         \<and> token_request H cfg b c \<notin> set (map GET (tries (base_url cfg)))"
proof -
  from probe have tr1: "tr1 = tr @ map GET (tries (base_url cfg))"
    unfolding openSession_def by (rule openSession_loop_None)
  from nofix have "str_or None (fixed_cookie cfg) = None"
    by (simp add: str_or_def fixed_cookie_def truthy_str_def)
  with url cid sec probe tr1 have "authCycle H cfg tr =
           (Inr (AuthFailed 502 ''Could not obtain PHPSESSID (session required)'' None),
            tr @ map GET (tries (base_url cfg)))"
    by (simp add: authCycle_def)
  with GET_not_token [of H cfg b c "tries (base_url cfg)"] show ?thesis by blast
qed

theorem C3_no_session_no_fallback_witness:
  "openSession (demo_tok token_good) (base_url (demo_cfg\<lparr>GESPROV_PHPSESSID := None\<rparr>)) []
     = (None, [GET ''http://g/'', GET ''http://g/ges-api/'', GET ''http://g/ges-api/v1/''])
   \<and> \<not> truthy_str (GESPROV_PHPSESSID (demo_cfg\<lparr>GESPROV_PHPSESSID := None\<rparr>))
   \<and> authCycle (demo_tok token_good) (demo_cfg\<lparr>GESPROV_PHPSESSID := None\<rparr>) []
     = (Inr (AuthFailed 502 ''Could not obtain PHPSESSID (session required)'' None),
        [GET ''http://g/'', GET ''http://g/ges-api/'', GET ''http://g/ges-api/v1/''])"
proof -
  let ?cfg = "demo_cfg\<lparr>GESPROV_PHPSESSID := None\<rparr>"
  let ?H = "demo_tok token_good"
  have url: "base_url ?cfg \<noteq> []" by code_simp
  have cid: "truthy_str (GESPROV_CLIENT_ID ?cfg)" by code_simp
  have sec: "truthy_str (GESPROV_CLIENT_SECRET ?cfg)" by code_simp
  have probe: "openSession ?H (base_url ?cfg) []
     = (None, [GET ''http://g/'', GET ''http://g/ges-api/'', GET ''http://g/ges-api/v1/''])"
    by code_simp
  have nofix: "\<not> truthy_str (GESPROV_PHPSESSID ?cfg)" by code_simp
  have t: "tries (base_url ?cfg) = [''http://g/'', ''http://g/ges-api/'', ''http://g/ges-api/v1/'']"
    by code_simp
  from C3_no_session_no_fallback [OF url cid sec probe nofix] t probe nofix show ?thesis by simp
qed

text \<open>
  Claim C4. With a valid configuration, when \<open>openSession\<close> yields a cookie, the one call
  \<open>authCycle\<close> adds to the probes is the token request whose \<^verbatim>\<open>Cookie\<close> header is that
  cookie, a successful result carries that cookie, and the whole result is the same
  whatever the value \<open>fb\<close> of the fixed fallback cookie.
\<close>

theorem C4_probed_cookie_wins:
  assumes url: "base_url cfg \<noteq> []"
    and cid: "truthy_str (GESPROV_CLIENT_ID cfg)"
    and sec: "truthy_str (GESPROV_CLIENT_SECRET cfg)"
    and probe: "openSession H (base_url cfg) tr = (Some sid, tr1)"
  shows "snd (authCycle H cfg tr) = tr1 @ [token_request H cfg (base_url cfg) sid]
         \<and> map_of (headers (token_request H cfg (base_url cfg) sid)) ''Cookie'' = Some sid
         \<and> authCycle H (cfg\<lparr>GESPROV_PHPSESSID := fb\<rparr>) tr = authCycle H cfg tr
         \<and> (case fst (authCycle H cfg tr) of
               Inr (Authenticated cookie token token_type) \<Rightarrow> cookie = sid
             | _ \<Rightarrow> True)"
proof -
  note a = authCycle_probed [OF url cid sec probe]
  have t: "snd (getToken H cfg (base_url cfg) sid tr1) = tr1 @ [token_request H cfg (base_url cfg) sid]"
    by (rule getToken_trace)
  from a t have 1: "snd (authCycle H cfg tr) = tr1 @ [token_request H cfg (base_url cfg) sid]"
    by (auto split: prod.splits sum.splits token_result.splits)
  have 2: "map_of (headers (token_request H cfg (base_url cfg) sid)) ''Cookie'' = Some sid"
    by (simp add: token_request_def)
  have "authCycle H (cfg\<lparr>GESPROV_PHPSESSID := fb\<rparr>) tr =
           (case getToken H (cfg\<lparr>GESPROV_PHPSESSID := fb\<rparr>) (base_url (cfg\<lparr>GESPROV_PHPSESSID := fb\<rparr>)) sid tr1 of
              (Inl e, tr2) \<Rightarrow> (Inl e, tr2)
            | (Inr (TokenFailed st raw), tr2) \<Rightarrow> (Inr (AuthFailed st ''Token failed'' (Some raw)), tr2)
            | (Inr (TokenOk access_token token_type), tr2) \<Rightarrow>
                (Inr (Authenticated sid access_token token_type), tr2))"
    using url cid sec probe by (intro authCycle_probed) simp_all
  with a have 3: "authCycle H (cfg\<lparr>GESPROV_PHPSESSID := fb\<rparr>) tr = authCycle H cfg tr"
    by simp
  from a have 4: "(case fst (authCycle H cfg tr) of
               Inr (Authenticated cookie token token_type) \<Rightarrow> cookie = sid
             | _ \<Rightarrow> True)"
    by (auto split: prod.splits sum.splits token_result.splits)
  from 1 2 3 4 show ?thesis by blast
qed

theorem C4_probed_cookie_wins_witness:
  "openSession (demo_biz NetworkError) (base_url demo_cfg) [] = (Some ''PHPSESSID=abc'', [GET ''http://g/''])
   \<and> fixed_cookie demo_cfg = Some ''PHPSESSID=fixed''
   \<and> snd (authCycle (demo_biz NetworkError) demo_cfg [])
     = [GET ''http://g/''] @ [token_request (demo_biz NetworkError) demo_cfg (base_url demo_cfg) ''PHPSESSID=abc'']
   \<and> map_of (headers (token_request (demo_biz NetworkError) demo_cfg (base_url demo_cfg) ''PHPSESSID=abc''))
        ''Cookie'' = Some ''PHPSESSID=abc''
   \<and> authCycle (demo_biz NetworkError) (demo_cfg\<lparr>GESPROV_PHPSESSID := None\<rparr>) []
     = authCycle (demo_biz NetworkError) demo_cfg []
   \<and> fst (authCycle (demo_biz NetworkError) demo_cfg [])
     = Inr (Authenticated ''PHPSESSID=abc'' (Some (JStr ''T'')) (Some (JStr ''Bearer'')))"
proof -
  let ?H = "demo_biz NetworkError"
  have url: "base_url demo_cfg \<noteq> []" by code_simp
  have cid: "truthy_str (GESPROV_CLIENT_ID demo_cfg)" by code_simp
  have sec: "truthy_str (GESPROV_CLIENT_SECRET demo_cfg)" by code_simp
  have probe: "openSession ?H (base_url demo_cfg) [] = (Some ''PHPSESSID=abc'', [GET ''http://g/''])"
    by code_simp
  have fx: "fixed_cookie demo_cfg = Some ''PHPSESSID=fixed''" by code_simp
  have res: "fst (authCycle ?H demo_cfg [])
     = Inr (Authenticated ''PHPSESSID=abc'' (Some (JStr ''T'')) (Some (JStr ''Bearer'')))"
    by code_simp
  from C4_probed_cookie_wins [OF url cid sec probe, of None] probe fx res show ?thesis by simp
qed

section \<open>The routes\<close>

text \<open>
  Claim C8, as the code has it. When the proxy key check passes, the auth route answers a
  successful auth cycle with status 200 and an object with exactly the properties
  \<^verbatim>\<open>ok\<close>, \<^verbatim>\<open>cookie\<close>, \<^verbatim>\<open>token\<close> and \<^verbatim>\<open>token_type\<close> in the later revision (the token
  and the token type are never \<^verbatim>\<open>undefined\<close>), and with exactly \<^verbatim>\<open>ok\<close>, \<^verbatim>\<open>cookie\<close> and
  \<^verbatim>\<open>token\<close> in the earlier revision, whose auth cycle returns no token type. In both
  revisions a failed auth cycle is answered with the failure object at the failure's status
  (a status other than 0, which \<^verbatim>\<open>auth.status || 500\<close> would replace).
\<close>

theorem C8_auth_route_shapes:
  assumes key: "requireKey cfg req = None"
  shows "(authCycle H cfg tr = (Inr (Authenticated cookie token token_type), tr1) \<longrightarrow>
            token \<noteq> None \<and> token_type \<noteq> None
            \<and> route_auth H cfg req tr =
                (Inr (Reply 200 (JObj [(''ok'', JBool True), (''cookie'', JStr cookie),
                    (''token'', the token), (''token_type'', the token_type)])), tr1))
         \<and> (authCycle H cfg tr = (Inr (AuthFailed st err raw), tr1) \<and> st \<noteq> 0 \<longrightarrow>
              route_auth H cfg req tr = (Inr (Reply st (auth_json (AuthFailed st err raw))), tr1))
         \<and> (authCycle_v1 H cfg tr = (Inr (Authenticated cookie token token_type), tr1) \<longrightarrow>
            token \<noteq> None \<and> token_type = None
            \<and> route_auth_v1 H cfg req tr =
                (Inr (Reply 200 (JObj [(''ok'', JBool True), (''cookie'', JStr cookie),
                    (''token'', the token)])), tr1))
         \<and> (authCycle_v1 H cfg tr = (Inr (AuthFailed st err raw), tr1) \<and> st \<noteq> 0 \<longrightarrow>
              route_auth_v1 H cfg req tr = (Inr (Reply st (auth_json (AuthFailed st err raw))), tr1))"
proof (intro conjI impI)
  assume a: "authCycle H cfg tr = (Inr (Authenticated cookie token token_type), tr1)"
  from authCycle_Authenticated [OF a] obtain x y where xy: "token = Some x" "token_type = Some y"
    by (auto dest: truthy_val_Some)
  from xy show "token \<noteq> None" by simp
  from xy show "token_type \<noteq> None" by simp
  from key a xy show "route_auth H cfg req tr =
                (Inr (Reply 200 (JObj [(''ok'', JBool True), (''cookie'', JStr cookie),
                    (''token'', the token), (''token_type'', the token_type)])), tr1)"
    by (simp add: route_auth_def obj_def List.map_filter_def)
next
  assume "authCycle H cfg tr = (Inr (AuthFailed st err raw), tr1) \<and> st \<noteq> 0"
  with key show "route_auth H cfg req tr = (Inr (Reply st (auth_json (AuthFailed st err raw))), tr1)"
    by (simp add: route_auth_def auth_failure_reply_def)
next
  assume a: "authCycle_v1 H cfg tr = (Inr (Authenticated cookie token token_type), tr1)"
  from authCycle_v1_Authenticated [OF a] obtain x where x: "token = Some x" and n: "token_type = None"
    by (auto dest: truthy_val_Some)
  from x show "token \<noteq> None" by simp
  from n show "token_type = None" .
  from key a x show "route_auth_v1 H cfg req tr =
                (Inr (Reply 200 (JObj [(''ok'', JBool True), (''cookie'', JStr cookie),
                    (''token'', the token)])), tr1)"
    by (simp add: route_auth_v1_def obj_def List.map_filter_def)
next
  assume "authCycle_v1 H cfg tr = (Inr (AuthFailed st err raw), tr1) \<and> st \<noteq> 0"
  with key show "route_auth_v1 H cfg req tr = (Inr (Reply st (auth_json (AuthFailed st err raw))), tr1)"
    by (simp add: route_auth_v1_def auth_failure_reply_def)
qed

theorem C8_auth_route_shapes_witness:
  "requireKey demo_cfg demo_req = None
   \<and> route_auth (demo_biz NetworkError) demo_cfg demo_req []
     = (Inr (Reply 200 (JObj [(''ok'', JBool True), (''cookie'', JStr ''PHPSESSID=abc''),
            (''token'', JStr ''T''), (''token_type'', JStr ''Bearer'')])),
        [GET ''http://g/'', token_request (demo_biz NetworkError) demo_cfg ''http://g'' ''PHPSESSID=abc''])
   \<and> fst (route_auth (demo_tok (Response (resp 403 ''Forbidden''))) demo_cfg demo_req [])
     = Inr (Reply 403 (JObj [(''ok'', JBool False), (''status'', JNum (Fin 403)),
            (''error'', JStr ''Token failed''), (''raw'', JStr ''Forbidden'')]))
   \<and> route_auth_v1 (demo_biz NetworkError) demo_cfg demo_req []
     = (Inr (Reply 200 (JObj [(''ok'', JBool True), (''cookie'', JStr ''PHPSESSID=abc''),
            (''token'', JStr ''T'')])),
        [GET ''http://g/'', token_request (demo_biz NetworkError) demo_cfg ''http://g'' ''PHPSESSID=abc''])
   \<and> fst (route_auth_v1 (demo_tok (Response (resp 403 ''Forbidden''))) demo_cfg demo_req [])
     = Inr (Reply 403 (JObj [(''ok'', JBool False), (''status'', JNum (Fin 403)),
            (''error'', JStr ''Token failed''), (''raw'', JStr ''Forbidden'')]))"
proof -
  let ?S = "demo_biz NetworkError"
  let ?F = "demo_tok (Response (resp 403 ''Forbidden''))"
  let ?trS = "[GET ''http://g/'', token_request ?S demo_cfg ''http://g'' ''PHPSESSID=abc'']"
  let ?tr = "[GET ''http://g/'', GET ''http://g/ges-api/'', GET ''http://g/ges-api/v1/'',
              token_request ?F demo_cfg ''http://g'' ''PHPSESSID=fixed'']"
  have fail: "authCycle ?F demo_cfg [] = (Inr (AuthFailed 403 ''Token failed'' (Some (JStr ''Forbidden''))), ?tr)"
    by code_simp
  have fail1: "authCycle_v1 ?F demo_cfg [] = (Inr (AuthFailed 403 ''Token failed'' (Some (JStr ''Forbidden''))), ?tr)"
    by code_simp
  have succ1: "authCycle_v1 ?S demo_cfg [] = (Inr (Authenticated ''PHPSESSID=abc'' (Some (JStr ''T'')) None), ?trS)"
    by code_simp
  have j: "auth_json (AuthFailed 403 ''Token failed'' (Some (JStr ''Forbidden'')))
     = JObj [(''ok'', JBool False), (''status'', JNum (Fin 403)),
            (''error'', JStr ''Token failed''), (''raw'', JStr ''Forbidden'')]"
    by code_simp
  note s = C8_auth_route_shapes [OF demo_key, of ?S "[]" "''PHPSESSID=abc''"
      "Some (JStr ''T'')" "Some (JStr ''Bearer'')" ?trS]
  note s1 = C8_auth_route_shapes [OF demo_key, of ?S "[]" "''PHPSESSID=abc''"
      "Some (JStr ''T'')" None ?trS]
  note f = C8_auth_route_shapes [OF demo_key, of ?F "[]" _ _ _ ?tr 403 "''Token failed''" "Some (JStr ''Forbidden'')"]
  from s demo_biz_auth [of NetworkError] have 1: "route_auth ?S demo_cfg demo_req []
     = (Inr (Reply 200 (JObj [(''ok'', JBool True), (''cookie'', JStr ''PHPSESSID=abc''),
            (''token'', JStr ''T''), (''token_type'', JStr ''Bearer'')])), ?trS)"
    by simp
  from f fail have 2: "route_auth ?F demo_cfg demo_req []
     = (Inr (Reply 403 (auth_json (AuthFailed 403 ''Token failed'' (Some (JStr ''Forbidden''))))), ?tr)"
    by simp
  from s1 succ1 have 3: "route_auth_v1 ?S demo_cfg demo_req []
     = (Inr (Reply 200 (JObj [(''ok'', JBool True), (''cookie'', JStr ''PHPSESSID=abc''),
            (''token'', JStr ''T'')])), ?trS)"
    by simp
  from f fail1 have 4: "route_auth_v1 ?F demo_cfg demo_req []
     = (Inr (Reply 403 (auth_json (AuthFailed 403 ''Token failed'' (Some (JStr ''Forbidden''))))), ?tr)"
    by simp
  from 1 2 3 4 demo_key show ?thesis unfolding j by simp
qed

text \<open>The auth route of the earlier revision on a successful cycle: the reply has no
  \<^verbatim>\<open>token_type\<close>.\<close>

theorem C8_counterexample:
  "requireKey demo_cfg demo_req = None
   \<and> fst (authCycle_v1 (demo_biz NetworkError) demo_cfg [])
     = Inr (Authenticated ''PHPSESSID=abc'' (Some (JStr ''T'')) None)
   \<and> fst (route_auth_v1 (demo_biz NetworkError) demo_cfg demo_req [])
     = Inr (Reply 200 (JObj [(''ok'', JBool True), (''cookie'', JStr ''PHPSESSID=abc''),
            (''token'', JStr ''T'')]))
   \<and> get_prop (JObj [(''ok'', JBool True), (''cookie'', JStr ''PHPSESSID=abc''), (''token'', JStr ''T'')])
        ''token_type'' = None"
  by code_simp











end
